theory Spec2Isabelle
  imports Complex_Main "HOL-Library.Word"
begin

unbundle bit_operations_syntax

section \<open>Audio capture and framing (src/lib/audio.ts)\<close>

subsection \<open>Samples and typed arrays\<close>

text \<open>
  An element of a \<^verbatim>\<open>Float32Array\<close>, and a JavaScript number, is a finite binary
  fraction, an infinity or NaN. Finite values are embedded as rationals; the sign of zero
  is not kept: only a division by zero tells \<^verbatim>\<open>-0\<close> from \<^verbatim>\<open>+0\<close>, and the two divisors
  of the program, a sample rate and a quotient of a rate by a rate, are never negative.
  \<^verbatim>\<open>resampleLinear\<close> computes with doubles, and every operation of it is rounded as
  IEEE 754 prescribes (see below). The arithmetic of \<^verbatim>\<open>floatTo16BitPCM\<close> needs no
  rounding: a clamped 32-bit float has a 24-bit significand, and its product with
  \<^verbatim>\<open>0x8000\<close> or \<^verbatim>\<open>0x7fff\<close> (15 bits) fits the 53-bit significand of a double.
\<close>

datatype sample = NaN | NInf | PInf | Fin rat

text \<open>
  \<^verbatim>\<open>x * w\<close> for a finite number \<^verbatim>\<open>w\<close>, where the product of finite values is a
  double as it stands (the use in \<open>scale\<close> below).
\<close>

fun fmul :: "sample \<Rightarrow> rat \<Rightarrow> sample" where
  "fmul NaN w = NaN"
| "fmul (Fin a) w = Fin (a * w)"
| "fmul PInf w = (if w = 0 then NaN else if 0 < w then PInf else NInf)"
| "fmul NInf w = (if w = 0 then NaN else if 0 < w then NInf else PInf)"

subsection \<open>IEEE 754 arithmetic\<close>

text \<open>
  \<open>expo x\<close> is the binary exponent of a positive number:
  \<open>2 ^ expo x \<le> x < 2 ^ (expo x + 1)\<close>.
\<close>

function expo :: "rat \<Rightarrow> int" where
  "expo x =
     (if x \<le> 0 then 0
      else if 2 \<le> x then expo (x / 2) + 1
      else if x < 1 then expo (x * 2) - 1
      else 0)"
  by pat_completeness auto

lemma floor_half_less: "2 \<le> y \<Longrightarrow> \<lfloor>y / 2\<rfloor> < \<lfloor>y :: rat\<rfloor>"
  by (simp add: floor_less_iff) linarith

termination expo
proof (relation "measure (\<lambda>x. if 1 \<le> x then nat \<lfloor>x\<rfloor> else nat \<lfloor>1 / x\<rfloor> + 1)", goal_cases)
  case 1
  then show ?case by simp
next
  case (2 x)
  then have "\<lfloor>x / 2\<rfloor> < \<lfloor>x\<rfloor>" by (simp add: floor_half_less)
  moreover have "0 < \<lfloor>x\<rfloor>" using 2 by simp
  ultimately show ?case using 2 by simp
next
  case (3 x)
  then have x: "0 < x" "x < 1" by simp_all
  show ?case
  proof (cases "1 \<le> x * 2")
    case True
    have "1 < 1 / x" using x by simp
    then have "1 \<le> \<lfloor>1 / x\<rfloor>" by simp
    moreover have "\<lfloor>x * 2\<rfloor> = 1" using x True by (simp add: floor_eq_iff)
    ultimately show ?thesis using x True by simp
  next
    case False
    then have h: "2 \<le> 1 / x" using x by (simp add: field_simps)
    have "1 / (x * 2) = (1 / x) / 2" by simp
    then have "\<lfloor>1 / (x * 2)\<rfloor> < \<lfloor>1 / x\<rfloor>" using floor_half_less[OF h] by simp
    moreover have "0 \<le> \<lfloor>1 / (x * 2)\<rfloor>" using x by simp
    ultimately show ?thesis using x False by simp
  qed
qed

text \<open>
  Rounding to the nearest representable number, a tie to the one with the even
  significand: \<open>p\<close> is the number of fraction bits and \<open>emin\<close> the least exponent, below
  which the spacing stays that of the subnormal numbers. A result of magnitude
  \<open>2 ^ emax\<close> or more is an infinity. \<open>binary64\<close> is the rounding of every operation on
  doubles, \<open>binary32\<close> that of a store into a \<^verbatim>\<open>Float32Array\<close>.
\<close>

declare expo.simps [simp del]

definition round_half_even :: "rat \<Rightarrow> int" where
  "round_half_even y =
     (let f = \<lfloor>y\<rfloor>; d = y - of_int f
      in if d < 1 / 2 then f else if 1 / 2 < d then f + 1 else if even f then f else f + 1)"

definition round_to :: "int \<Rightarrow> int \<Rightarrow> rat \<Rightarrow> rat" where
  "round_to p emin x =
     (let q = 2 powi (max (expo \<bar>x\<bar>) emin - p)
      in of_int (round_half_even (x / q)) * q)"

definition overflow :: "nat \<Rightarrow> rat \<Rightarrow> sample" where
  "overflow emax y = (if 2 ^ emax \<le> y then PInf else if y \<le> - (2 ^ emax) then NInf else Fin y)"

definition binary64 :: "rat \<Rightarrow> sample" where
  "binary64 x = overflow 1024 (round_to 52 (- 1022) x)"

definition binary32 :: "rat \<Rightarrow> sample" where
  "binary32 x = overflow 128 (round_to 23 (- 126) x)"

text \<open>
  The operations on doubles that \<^verbatim>\<open>resampleLinear\<close> uses: \<^verbatim>\<open>+\<close>, \<^verbatim>\<open>-\<close>, \<^verbatim>\<open>*\<close>,
  \<^verbatim>\<open>/\<close> and \<^verbatim>\<open>Math.floor\<close>, with their results on NaN, on the infinities and on a zero
  divisor, and the store into a \<^verbatim>\<open>Float32Array\<close>.
\<close>

fun dadd :: "sample \<Rightarrow> sample \<Rightarrow> sample" where
  "dadd NaN y = NaN"
| "dadd x NaN = NaN"
| "dadd (Fin a) (Fin b) = binary64 (a + b)"
| "dadd (Fin a) y = y"
| "dadd x (Fin b) = x"
| "dadd PInf PInf = PInf"
| "dadd NInf NInf = NInf"
| "dadd PInf NInf = NaN"
| "dadd NInf PInf = NaN"

fun dneg :: "sample \<Rightarrow> sample" where
  "dneg NaN = NaN"
| "dneg PInf = NInf"
| "dneg NInf = PInf"
| "dneg (Fin a) = Fin (- a)"

definition dsub :: "sample \<Rightarrow> sample \<Rightarrow> sample" where
  "dsub x y = dadd x (dneg y)"

fun dmul :: "sample \<Rightarrow> sample \<Rightarrow> sample" where
  "dmul NaN y = NaN"
| "dmul x NaN = NaN"
| "dmul (Fin a) (Fin b) = binary64 (a * b)"
| "dmul (Fin a) PInf = (if a = 0 then NaN else if 0 < a then PInf else NInf)"
| "dmul (Fin a) NInf = (if a = 0 then NaN else if 0 < a then NInf else PInf)"
| "dmul PInf (Fin b) = (if b = 0 then NaN else if 0 < b then PInf else NInf)"
| "dmul NInf (Fin b) = (if b = 0 then NaN else if 0 < b then NInf else PInf)"
| "dmul PInf PInf = PInf"
| "dmul NInf NInf = PInf"
| "dmul PInf NInf = NInf"
| "dmul NInf PInf = NInf"

fun ddiv :: "sample \<Rightarrow> sample \<Rightarrow> sample" where
  "ddiv NaN y = NaN"
| "ddiv x NaN = NaN"
| "ddiv (Fin a) (Fin b) =
     (if b = 0 then (if a = 0 then NaN else if 0 < a then PInf else NInf) else binary64 (a / b))"
| "ddiv (Fin a) y = Fin 0"
| "ddiv PInf (Fin b) = (if 0 \<le> b then PInf else NInf)"
| "ddiv NInf (Fin b) = (if 0 \<le> b then NInf else PInf)"
| "ddiv x y = NaN"

fun Math_floor :: "sample \<Rightarrow> sample" where
  "Math_floor (Fin v) = Fin (of_int \<lfloor>v\<rfloor>)"
| "Math_floor x = x"

fun Float32_store :: "sample \<Rightarrow> sample" where
  "Float32_store (Fin v) = binary32 v"
| "Float32_store x = x"

text \<open>
  \<^verbatim>\<open>input[i]\<close> on a typed array: an index outside the array reads \<^verbatim>\<open>undefined\<close>,
  which every arithmetic operation turns into NaN.
\<close>

definition js_index :: "sample list \<Rightarrow> int \<Rightarrow> sample" where
  "js_index xs i = (if 0 \<le> i \<and> i < int (length xs) then xs ! nat i else NaN)"

datatype error = RangeError | TypeError

subsection \<open>resampleLinear\<close>

text \<open>
  Sample rates are whole numbers of Hz, each a double as it stands (below \<open>2 ^ 53\<close>).
  The two divisions are IEEE divisions, so a zero rate does not trap:
  \<^verbatim>\<open>inputRate / 0\<close> is \<^verbatim>\<open>Infinity\<close> and \<^verbatim>\<open>length / Infinity\<close> is 0;
  \<^verbatim>\<open>length / 0\<close> is \<^verbatim>\<open>Infinity\<close>, or NaN when the length is 0 too.
  \<^verbatim>\<open>new Float32Array(n)\<close> throws a RangeError unless \<open>0 \<le> n < 2 ^ 53\<close>, and reads NaN
  as length 0. The loop counter, \<^verbatim>\<open>idxLow + 1\<close> and \<^verbatim>\<open>input.length - 1\<close> are small
  integers, on which the arithmetic of doubles is exact. When \<^verbatim>\<open>idx\<close> is not finite,
  \<^verbatim>\<open>input[idxLow]\<close> is \<^verbatim>\<open>undefined\<close> and the weight is NaN, so the sample is NaN.
\<close>

definition resample_at :: "sample list \<Rightarrow> sample \<Rightarrow> nat \<Rightarrow> sample" where
  "resample_at input ratio i =
     (case dmul (Fin (of_nat i)) ratio of
        Fin idx \<Rightarrow>
          let idxLow = \<lfloor>idx\<rfloor>;
              idxHigh = min (idxLow + 1) (int (length input) - 1);
              weight = dsub (Fin idx) (Fin (of_int idxLow))
          in Float32_store
               (dadd (dmul (js_index input idxLow) (dsub (Fin 1) weight))
                     (dmul (js_index input idxHigh) weight))
      | _ \<Rightarrow> NaN)"

definition resampleLinear :: "sample list \<Rightarrow> nat \<Rightarrow> nat \<Rightarrow> error + sample list" where
  "resampleLinear input inputRate targetRate =
     (if inputRate = targetRate then Inr input
      else
        let ratio = ddiv (Fin (of_nat inputRate)) (Fin (of_nat targetRate)) in
        case Math_floor (ddiv (Fin (of_nat (length input))) ratio) of
          NaN \<Rightarrow> Inr []
        | Fin newLength \<Rightarrow>
            if newLength < 0 \<or> 2 ^ 53 \<le> newLength then Inl RangeError
            else Inr (map (resample_at input ratio) [0..<nat \<lfloor>newLength\<rfloor>])
        | _ \<Rightarrow> Inl RangeError)"

subsection \<open>floatTo16BitPCM\<close>

text \<open>\<^verbatim>\<open>Math.min(1, x)\<close> and \<^verbatim>\<open>Math.max(-1, x)\<close>: NaN if the argument is NaN.\<close>

fun Math_min1 :: "sample \<Rightarrow> sample" where
  "Math_min1 NaN = NaN"
| "Math_min1 NInf = NInf"
| "Math_min1 PInf = Fin 1"
| "Math_min1 (Fin a) = Fin (min 1 a)"

fun Math_max_neg1 :: "sample \<Rightarrow> sample" where
  "Math_max_neg1 NaN = NaN"
| "Math_max_neg1 NInf = Fin (- 1)"
| "Math_max_neg1 PInf = PInf"
| "Math_max_neg1 (Fin a) = Fin (max (- 1) a)"

definition clamp :: "sample \<Rightarrow> sample" where
  "clamp x = Math_max_neg1 (Math_min1 x)"

text \<open>\<^verbatim>\<open>s < 0 ? s * 0x8000 : s * 0x7fff\<close>; a comparison with NaN is false.\<close>

fun is_negative :: "sample \<Rightarrow> bool" where
  "is_negative NaN = False"
| "is_negative NInf = True"
| "is_negative PInf = False"
| "is_negative (Fin a) = (a < 0)"

definition scale :: "sample \<Rightarrow> sample" where
  "scale s = (if is_negative s then fmul s 32768 else fmul s 32767)"

text \<open>
  The store into an \<^verbatim>\<open>Int16Array\<close> (ToInt16): NaN and the infinities become 0, a finite
  number is truncated towards zero and reduced modulo \<open>2 ^ 16\<close>.
\<close>

definition js_truncate :: "rat \<Rightarrow> int" where
  "js_truncate v = (if v < 0 then - \<lfloor>- v\<rfloor> else \<lfloor>v\<rfloor>)"

fun ToInt16 :: "sample \<Rightarrow> 16 word" where
  "ToInt16 (Fin v) = word_of_int (js_truncate v)"
| "ToInt16 x = 0"

definition quantize :: "sample \<Rightarrow> 16 word" where
  "quantize x = ToInt16 (scale (clamp x))"

definition floatTo16BitPCM :: "sample list \<Rightarrow> 16 word list" where
  "floatTo16BitPCM float32 = map quantize float32"

text \<open>
  The quantization in the words of the specification, for a finite sample: clamp to
  \<open>[-1, 1]\<close>, scale a negative value by 32768 and a non-negative one by 32767; the
  16-bit integer is the integer part of the product.
\<close>

definition clamp_spec :: "rat \<Rightarrow> rat" where
  "clamp_spec a = max (- 1) (min 1 a)"

definition quantize_spec :: "rat \<Rightarrow> int" where
  "quantize_spec a =
     (let s = clamp_spec a in if s < 0 then js_truncate (s * 32768) else js_truncate (s * 32767))"

text \<open>
  \<^verbatim>\<open>pcm.buffer\<close>: the bytes behind the \<^verbatim>\<open>Int16Array\<close>, two per element, low byte
  first (typed arrays have the byte order of the platform, little-endian on every
  platform that runs a browser).
\<close>

definition buffer_bytes :: "16 word list \<Rightarrow> 8 word list" where
  "buffer_bytes pcm = concat (map (\<lambda>w. [ucast w, ucast (drop_bit 8 w)]) pcm)"

subsection \<open>createMicrophonePcmStream\<close>

definition TARGET_SAMPLE_RATE :: nat where
  "TARGET_SAMPLE_RATE = 16000"

definition FRAME_DURATION_MS :: nat where
  "FRAME_DURATION_MS = 250"

text \<open>\<^verbatim>\<open>Math.round\<close> rounds to the nearest integer, a half towards \<open>+\<infinity>\<close>.\<close>

definition Math_round :: "rat \<Rightarrow> int" where
  "Math_round x = \<lfloor>x + 1 / 2\<rfloor>"

definition samplesPerFrame :: nat where
  "samplesPerFrame = nat (Math_round (of_nat (TARGET_SAMPLE_RATE * FRAME_DURATION_MS) / 1000))"

text \<open>
  The callbacks of the caller are known by what the session can observe of them: whether
  \<^verbatim>\<open>onChunk\<close> throws on a payload, and whether the optional \<^verbatim>\<open>onError\<close> was given
  (\<^verbatim>\<open>onError\<close> itself is taken not to throw). Every call is recorded in \<open>events\<close>, in
  order. An exception that leaves the \<^verbatim>\<open>onaudioprocess\<close> handler is recorded as
  \<open>Uncaught\<close>.
\<close>

record callbacks =
  onChunk_throws :: "8 word list \<Rightarrow> bool"
  onError_given :: bool

datatype event = OnChunk "8 word list" | OnError | Uncaught error

text \<open>
  The closure variables of \<^verbatim>\<open>createMicrophonePcmStream\<close>. A handle is \<open>None\<close> for
  \<^verbatim>\<open>null\<close>; of the audio context only its sample rate is read.
\<close>

record framer =
  mediaStream :: "unit option"
  audioContext :: "nat option"
  processor :: "unit option"
  sourceNode :: "unit option"
  running :: bool
  resampleBuffer :: "sample list"
  lastEmitTime :: rat
  events :: "event list"

definition new_framer :: framer where
  "new_framer = \<lparr>mediaStream = None, audioContext = None, processor = None, sourceNode = None,
     running = False, resampleBuffer = [], lastEmitTime = 0, events = []\<rparr>"

definition call_onError :: "callbacks \<Rightarrow> framer \<Rightarrow> framer" where
  "call_onError cb s = (if onError_given cb then s\<lparr>events := events s @ [OnError]\<rparr> else s)"

definition call_onChunk :: "callbacks \<Rightarrow> 8 word list \<Rightarrow> framer \<Rightarrow> framer" where
  "call_onChunk cb payload s =
     (let s' = s\<lparr>events := events s @ [OnChunk payload]\<rparr>
      in if onChunk_throws cb payload then call_onError cb s' else s')"

text \<open>
  The \<^verbatim>\<open>onaudioprocess\<close> handler, for one input block and the reading \<open>now\<close> of
  \<^verbatim>\<open>performance.now()\<close>. Lengths are far below \<open>2 ^ 53\<close>, where
  \<^verbatim>\<open>Math.floor(a / b)\<close> is the integer quotient.
\<close>

definition onaudioprocess :: "callbacks \<Rightarrow> sample list \<Rightarrow> rat \<Rightarrow> framer \<Rightarrow> framer" where
  "onaudioprocess cb input now s =
     (if \<not> running s then s
      else case audioContext s of
        None \<Rightarrow> s\<lparr>events := events s @ [Uncaught TypeError]\<rparr>
      | Some sampleRate \<Rightarrow>
        (case resampleLinear input sampleRate TARGET_SAMPLE_RATE of
           Inl e \<Rightarrow> s\<lparr>events := events s @ [Uncaught e]\<rparr>
         | Inr resampled \<Rightarrow>
           let concat = resampleBuffer s @ resampled;
               s1 = s\<lparr>resampleBuffer := concat\<rparr>
           in if of_nat FRAME_DURATION_MS \<le> now - lastEmitTime s1 then
                let framesToEmit = length concat div samplesPerFrame
                in if 0 < framesToEmit then
                     let emitCount = framesToEmit * samplesPerFrame;
                         frame = take emitCount concat;
                         s2 = s1\<lparr>resampleBuffer := drop emitCount concat, lastEmitTime := now\<rparr>;
                         pcm = floatTo16BitPCM frame
                     in call_onChunk cb (buffer_bytes pcm) s2
                   else s1
              else s1))"

fun payloads :: "event list \<Rightarrow> 8 word list list" where
  "payloads [] = []"
| "payloads (OnChunk p # evs) = p # payloads evs"
| "payloads (e # evs) = payloads evs"

text \<open>
  \<^verbatim>\<open>stop\<close> clears \<^verbatim>\<open>running\<close>, releases each handle that is set (disconnects the
  processor and the source, closes the context, stops the tracks of the stream) and sets
  it to \<^verbatim>\<open>null\<close>, and empties the buffer. \<^verbatim>\<open>lastEmitTime\<close> is left as it is.
\<close>

definition stop :: "framer \<Rightarrow> framer" where
  "stop s = s\<lparr>running := False, processor := None, sourceNode := None, audioContext := None,
     mediaStream := None, resampleBuffer := []\<rparr>"

text \<open>
  \<^verbatim>\<open>start\<close> is an async function with one suspension point, the \<^verbatim>\<open>await\<close> of
  \<^verbatim>\<open>getUserMedia\<close>. \<open>start_begin\<close> is the code before it: it tells whether the call
  suspends (it returns at once when the session is running). \<open>start_resume\<close> is the code
  after it, which runs without interruption; what the platform does is its argument: the
  first call that throws, or success with the sample rate of the new context.
\<close>

datatype start_outcome =
    getUserMedia_rejects
  | AudioContext_throws
  | createMediaStreamSource_throws nat
  | createScriptProcessor_throws nat
  | connect_throws nat
  | Succeeds nat

definition start_begin :: "framer \<Rightarrow> bool" where
  "start_begin s = (\<not> running s)"

fun acquired :: "start_outcome \<Rightarrow> framer \<Rightarrow> framer" where
  "acquired getUserMedia_rejects s = s"
| "acquired AudioContext_throws s = s\<lparr>mediaStream := Some ()\<rparr>"
| "acquired (createMediaStreamSource_throws r) s = s\<lparr>mediaStream := Some (), audioContext := Some r\<rparr>"
| "acquired (createScriptProcessor_throws r) s =
     s\<lparr>mediaStream := Some (), audioContext := Some r, sourceNode := Some ()\<rparr>"
| "acquired (connect_throws r) s =
     s\<lparr>mediaStream := Some (), audioContext := Some r, sourceNode := Some (), processor := Some ()\<rparr>"
| "acquired (Succeeds r) s =
     s\<lparr>mediaStream := Some (), audioContext := Some r, sourceNode := Some (), processor := Some ()\<rparr>"

fun succeeds :: "start_outcome \<Rightarrow> bool" where
  "succeeds (Succeeds r) = True"
| "succeeds out = False"

definition start_resume :: "callbacks \<Rightarrow> start_outcome \<Rightarrow> rat \<Rightarrow> framer \<Rightarrow> framer" where
  "start_resume cb out now s =
     (if succeeds out then (acquired out s)\<lparr>running := True, lastEmitTime := now\<rparr>
      else stop (call_onError cb (acquired out s)))"

text \<open>A whole \<^verbatim>\<open>start()\<close> that nothing interrupts.\<close>

definition start :: "callbacks \<Rightarrow> start_outcome \<Rightarrow> rat \<Rightarrow> framer \<Rightarrow> framer" where
  "start cb out now s = (if start_begin s then start_resume cb out now s else s)"

text \<open>
  One \<^verbatim>\<open>stop()\<close> against one \<^verbatim>\<open>start()\<close> in flight. \<^verbatim>\<open>stop\<close> is synchronous, so it
  runs either while \<^verbatim>\<open>start\<close> is suspended at its \<^verbatim>\<open>await\<close> or after \<^verbatim>\<open>start\<close> has
  finished.
\<close>

datatype stop_point = During_await | After_start

fun start_and_stop :: "callbacks \<Rightarrow> stop_point \<Rightarrow> start_outcome \<Rightarrow> rat \<Rightarrow> framer \<Rightarrow> framer" where
  "start_and_stop cb During_await out now s =
     (if start_begin s then start_resume cb out now (stop s) else stop s)"
| "start_and_stop cb After_start out now s = stop (start cb out now s)"

definition stopped :: "framer \<Rightarrow> bool" where
  "stopped s = (\<not> running s \<and> mediaStream s = None \<and> audioContext s = None \<and>
     processor s = None \<and> sourceNode s = None)"

text \<open>
  A session is what happens to one stream object: calls of \<^verbatim>\<open>start\<close> that run to
  their end (\<open>Start\<close>), continuations of a \<^verbatim>\<open>start\<close> that was suspended earlier
  (\<open>Resume\<close>), calls of \<^verbatim>\<open>stop\<close>, and invocations of the \<^verbatim>\<open>onaudioprocess\<close>
  handler with an input block and a clock reading.
\<close>

datatype action =
    Start start_outcome rat
  | Resume start_outcome rat
  | Stop
  | AudioProcess "sample list" rat

fun perform :: "callbacks \<Rightarrow> action \<Rightarrow> framer \<Rightarrow> framer" where
  "perform cb (Start out now) s = start cb out now s"
| "perform cb (Resume out now) s = start_resume cb out now s"
| "perform cb Stop s = stop s"
| "perform cb (AudioProcess input now) s = onaudioprocess cb input now s"

definition session :: "callbacks \<Rightarrow> action list \<Rightarrow> framer" where
  "session cb acts = fold (perform cb) acts new_framer"

text \<open>
  Two objects for concrete runs: callbacks that never throw, and one input block of the
  script processor, 4096 samples of silence.
\<close>

definition quiet_callbacks :: callbacks where
  "quiet_callbacks = \<lparr>onChunk_throws = (\<lambda>payload. False), onError_given = True\<rparr>"

definition silence :: "sample list" where
  "silence = replicate 4096 (Fin 0)"

text \<open>Every payload recorded so far is a positive whole number of frames.\<close>

definition whole_frames :: "framer \<Rightarrow> bool" where
  "whole_frames s =
     (\<forall>p \<in> set (payloads (events s)). \<exists>k. 0 < k \<and> length p = k * (samplesPerFrame * 2))"

section \<open>The WebSocket client (src/lib/ws.ts)\<close>

subsection \<open>Strings and JSON.parse\<close>

text \<open>
  A JavaScript string is a sequence of 16-bit code units. \<open>js\<close> writes one from
  8-bit characters.
\<close>

type_synonym jsstring = "16 word list"

definition js :: "string \<Rightarrow> jsstring" where
  "js s = map (\<lambda>c. of_nat (of_char c)) s"

text \<open>
  The value \<^verbatim>\<open>JSON.parse\<close> returns. An object keeps its members in the order of the
  text; a number keeps its text (its value as a double is not needed here).
\<close>

datatype json =
    JNull
  | JBool bool
  | JNumber jsstring
  | JString jsstring
  | JArray "json list"
  | JObject "(jsstring \<times> json) list"

text \<open>
  \<^verbatim>\<open>JSON.parse\<close> is the platform's, not the repository's; it is modelled after the JSON
  grammar of ECMA-404 that it implements, as a lexer followed by a pushdown parser, with
  \<open>None\<close> for the SyntaxError it throws. Code units are written as numbers: 34 is the
  double quote, 92 the backslash.
\<close>

datatype token =
    LBrace | RBrace | LBracket | RBracket | Colon | Comma
  | TString jsstring | TNumber jsstring | TTrue | TFalse | TNull

definition is_digit :: "16 word \<Rightarrow> bool" where
  "is_digit c = (48 \<le> c \<and> c \<le> 57)"

definition is_ws :: "16 word \<Rightarrow> bool" where
  "is_ws c = (c = 32 \<or> c = 9 \<or> c = 10 \<or> c = 13)"

definition hex_digit :: "16 word \<Rightarrow> 16 word option" where
  "hex_digit c =
     (if 48 \<le> c \<and> c \<le> 57 then Some (c - 48)
      else if 97 \<le> c \<and> c \<le> 102 then Some (c - 87)
      else if 65 \<le> c \<and> c \<le> 70 then Some (c - 55)
      else None)"

definition hex4 :: "16 word \<Rightarrow> 16 word \<Rightarrow> 16 word \<Rightarrow> 16 word \<Rightarrow> 16 word option" where
  "hex4 a b c d =
     (case (hex_digit a, hex_digit b, hex_digit c, hex_digit d) of
        (Some h1, Some h2, Some h3, Some h4) \<Rightarrow> Some (((h1 * 16 + h2) * 16 + h3) * 16 + h4)
      | _ \<Rightarrow> None)"

text \<open>The character after a backslash: \<^verbatim>\<open>" \ / b f n r t\<close>.\<close>

definition unescape :: "16 word \<Rightarrow> 16 word option" where
  "unescape c =
     (if c = 34 \<or> c = 92 \<or> c = 47 then Some c
      else if c = 98 then Some 8
      else if c = 102 then Some 12
      else if c = 110 then Some 10
      else if c = 114 then Some 13
      else if c = 116 then Some 9
      else None)"

definition cons_fst :: "16 word \<Rightarrow> (jsstring \<times> jsstring) option \<Rightarrow> (jsstring \<times> jsstring) option" where
  "cons_fst c r = (case r of None \<Rightarrow> None | Some (s, rest) \<Rightarrow> Some (c # s, rest))"

text \<open>
  The rest of a string literal after its opening quote: the string's code units and the
  text after the closing quote. A control character (below 32) may not stand in a string.
\<close>

fun lex_string :: "jsstring \<Rightarrow> (jsstring \<times> jsstring) option" where
  "lex_string [] = None"
| "lex_string (c # cs) =
     (if c = 34 then Some ([], cs)
      else if c = 92 then
        (case cs of
           [] \<Rightarrow> None
         | e # rest \<Rightarrow>
             if e = 117 then
               (case rest of
                  h1 # h2 # h3 # h4 # rest' \<Rightarrow>
                    (case hex4 h1 h2 h3 h4 of
                       None \<Rightarrow> None
                     | Some u \<Rightarrow> cons_fst u (lex_string rest'))
                | _ \<Rightarrow> None)
             else
               (case unescape e of
                  None \<Rightarrow> None
                | Some u \<Rightarrow> cons_fst u (lex_string rest)))
      else if c < 32 then None
      else cons_fst c (lex_string cs))"

text \<open>
  A number: an optional minus, then \<^verbatim>\<open>0\<close> or a digit from 1 to 9 followed by digits,
  then an optional fraction (a point and at least one digit) and an optional exponent
  (\<^verbatim>\<open>e\<close> or \<^verbatim>\<open>E\<close>, an optional sign, at least one digit).
\<close>

definition lex_int :: "jsstring \<Rightarrow> (jsstring \<times> jsstring) option" where
  "lex_int cs =
     (case cs of
        [] \<Rightarrow> None
      | c # rest \<Rightarrow>
          if c = 48 then Some ([c], rest)
          else if is_digit c then Some (c # takeWhile is_digit rest, dropWhile is_digit rest)
          else None)"

definition lex_frac :: "jsstring \<Rightarrow> (jsstring \<times> jsstring) option" where
  "lex_frac cs =
     (case cs of
        [] \<Rightarrow> Some ([], [])
      | c # rest \<Rightarrow>
          if c = 46 then
            (if takeWhile is_digit rest = [] then None
             else Some (c # takeWhile is_digit rest, dropWhile is_digit rest))
          else Some ([], cs))"

definition lex_exp :: "jsstring \<Rightarrow> (jsstring \<times> jsstring) option" where
  "lex_exp cs =
     (case cs of
        [] \<Rightarrow> Some ([], [])
      | c # rest \<Rightarrow>
          if c = 101 \<or> c = 69 then
            (let sign = (case rest of [] \<Rightarrow> [] | d # _ \<Rightarrow> if d = 43 \<or> d = 45 then [d] else []);
                 rest' = drop (length sign) rest
             in if takeWhile is_digit rest' = [] then None
                else Some (c # sign @ takeWhile is_digit rest', dropWhile is_digit rest'))
          else Some ([], cs))"

definition lex_number :: "jsstring \<Rightarrow> (jsstring \<times> jsstring) option" where
  "lex_number cs =
     (let sign = (case cs of [] \<Rightarrow> [] | c # _ \<Rightarrow> if c = 45 then [c] else [])
      in case lex_int (drop (length sign) cs) of
           None \<Rightarrow> None
         | Some (i, cs1) \<Rightarrow>
             (case lex_frac cs1 of
                None \<Rightarrow> None
              | Some (f, cs2) \<Rightarrow>
                  (case lex_exp cs2 of
                     None \<Rightarrow> None
                   | Some (x, cs3) \<Rightarrow> Some (sign @ i @ f @ x, cs3))))"

definition punctuation :: "16 word \<Rightarrow> token option" where
  "punctuation c =
     (if c = 123 then Some LBrace
      else if c = 125 then Some RBrace
      else if c = 91 then Some LBracket
      else if c = 93 then Some RBracket
      else if c = 58 then Some Colon
      else if c = 44 then Some Comma
      else None)"

definition cons_token :: "token \<Rightarrow> token list option \<Rightarrow> token list option" where
  "cons_token t r = (case r of None \<Rightarrow> None | Some ts \<Rightarrow> Some (t # ts))"

text \<open>
  The lexer. White space is the space, the tab, the line feed and the carriage return.
  Every branch that goes on has consumed at least one code unit.
\<close>

function tokenize :: "jsstring \<Rightarrow> token list option" where
  "tokenize [] = Some []"
| "tokenize (c # cs) =
     (if is_ws c then tokenize cs
      else if punctuation c \<noteq> None then cons_token (the (punctuation c)) (tokenize cs)
      else if c = 34 then
        (case lex_string cs of
           None \<Rightarrow> None
         | Some (s, rest) \<Rightarrow> cons_token (TString s) (tokenize rest))
      else if take 4 (c # cs) = js ''true'' then cons_token TTrue (tokenize (drop 3 cs))
      else if take 5 (c # cs) = js ''false'' then cons_token TFalse (tokenize (drop 4 cs))
      else if take 4 (c # cs) = js ''null'' then cons_token TNull (tokenize (drop 3 cs))
      else
        (case lex_number (c # cs) of
           None \<Rightarrow> None
         | Some (n, rest) \<Rightarrow> cons_token (TNumber n) (tokenize rest)))"
  by pat_completeness auto

lemma lex_string_length: "lex_string cs = Some (s, rest) \<Longrightarrow> length rest < Suc (length cs)"
proof (induction cs arbitrary: s rest rule: lex_string.induct)
  case 1
  then show ?case by simp
next
  case (2 c cs)
  show ?case
    using "2.prems" "2.IH"
    by (fastforce simp: cons_fst_def split: if_splits list.splits option.splits prod.splits)
qed

lemma lex_int_length: "lex_int cs = Some (i, rest) \<Longrightarrow> length rest < length cs"
  using length_dropWhile_le[of is_digit "tl cs"]
  by (auto simp: lex_int_def less_Suc_eq_le split: list.splits if_splits)

lemma lex_frac_length: "lex_frac cs = Some (f, rest) \<Longrightarrow> length rest \<le> length cs"
  using length_dropWhile_le[of is_digit "tl cs"]
  by (auto simp: lex_frac_def le_Suc_eq split: list.splits if_splits)

lemma lex_exp_length: "lex_exp cs = Some (x, rest) \<Longrightarrow> length rest \<le> length cs"
proof (cases cs)
  case Nil
  assume "lex_exp cs = Some (x, rest)"
  with Nil show ?thesis by (simp add: lex_exp_def)
next
  case (Cons c tl)
  assume a: "lex_exp cs = Some (x, rest)"
  show ?thesis
  proof (cases "c = 101 \<or> c = 69")
    case True
    with a Cons obtain k where "rest = dropWhile is_digit (drop k tl)"
      by (auto simp: lex_exp_def Let_def split: if_splits)
    then have "length rest \<le> length (drop k tl)"
      using length_dropWhile_le[of is_digit "drop k tl"] by (simp only:)
    then show ?thesis using Cons by simp
  next
    case False
    with a Cons show ?thesis by (auto simp: lex_exp_def)
  qed
qed

lemma lex_number_length: "lex_number cs = Some (n, rest) \<Longrightarrow> length rest < length cs"
proof -
  assume a: "lex_number cs = Some (n, rest)"
  then obtain k i cs1 f cs2 x where
    "lex_int (drop k cs) = Some (i, cs1)" "lex_frac cs1 = Some (f, cs2)" "lex_exp cs2 = Some (x, rest)"
    by (auto simp: lex_number_def Let_def split: option.splits)
  then have "length cs1 < length (drop k cs)" "length cs2 \<le> length cs1" "length rest \<le> length cs2"
    by (auto dest: lex_int_length lex_frac_length lex_exp_length)
  then show ?thesis by simp
qed

termination tokenize
  by (relation "measure length") (auto dest: lex_string_length lex_number_length)

text \<open>
  The parser: a pushdown automaton over the tokens. A frame of the stack is an array or
  an object under construction; the object frame holds the key whose value is being read.
\<close>

datatype frame = InArray "json list" | InObject "(jsstring \<times> json) list" "jsstring option"

datatype expect =
    Value
  | ValueOrEnd
  | KeyOrEnd
  | Key
  | AfterKey
  | AfterValue
  | Done json

text \<open>A finished value goes to the frame on top of the stack, or is the result.\<close>

fun deliver :: "json \<Rightarrow> frame list \<Rightarrow> (expect \<times> frame list) option" where
  "deliver v [] = Some (Done v, [])"
| "deliver v (InArray elems # st) = Some (AfterValue, InArray (elems @ [v]) # st)"
| "deliver v (InObject members (Some k) # st) =
     Some (AfterValue, InObject (members @ [(k, v)]) None # st)"
| "deliver v (InObject members None # st) = None"

fun close_frame :: "token \<Rightarrow> frame list \<Rightarrow> (expect \<times> frame list) option" where
  "close_frame RBracket (InArray elems # st) = deliver (JArray elems) st"
| "close_frame RBrace (InObject members None # st) = deliver (JObject members) st"
| "close_frame t st = None"

fun scalar :: "token \<Rightarrow> json option" where
  "scalar (TString s) = Some (JString s)"
| "scalar (TNumber n) = Some (JNumber n)"
| "scalar TTrue = Some (JBool True)"
| "scalar TFalse = Some (JBool False)"
| "scalar TNull = Some JNull"
| "scalar t = None"

definition begin_value :: "token \<Rightarrow> frame list \<Rightarrow> (expect \<times> frame list) option" where
  "begin_value t st =
     (if t = LBracket then Some (ValueOrEnd, InArray [] # st)
      else if t = LBrace then Some (KeyOrEnd, InObject [] None # st)
      else case scalar t of None \<Rightarrow> None | Some v \<Rightarrow> deliver v st)"

fun begin_key :: "token \<Rightarrow> frame list \<Rightarrow> (expect \<times> frame list) option" where
  "begin_key (TString k) (InObject members None # st) =
     Some (AfterKey, InObject members (Some k) # st)"
| "begin_key t st = None"

fun next_member :: "frame list \<Rightarrow> (expect \<times> frame list) option" where
  "next_member (InArray elems # st) = Some (Value, InArray elems # st)"
| "next_member (InObject members None # st) = Some (Key, InObject members None # st)"
| "next_member st = None"

fun transition :: "expect \<Rightarrow> token \<Rightarrow> frame list \<Rightarrow> (expect \<times> frame list) option" where
  "transition Value t st = begin_value t st"
| "transition ValueOrEnd t st = (if t = RBracket then close_frame t st else begin_value t st)"
| "transition KeyOrEnd t st = (if t = RBrace then close_frame t st else begin_key t st)"
| "transition Key t st = begin_key t st"
| "transition AfterKey t st = (if t = Colon then Some (Value, st) else None)"
| "transition AfterValue t st = (if t = Comma then next_member st else close_frame t st)"
| "transition (Done v) t st = None"

fun parse_tokens :: "expect \<Rightarrow> frame list \<Rightarrow> token list \<Rightarrow> json option" where
  "parse_tokens (Done v) [] [] = Some v"
| "parse_tokens e st [] = None"
| "parse_tokens e st (t # ts) =
     (case transition e t st of
        None \<Rightarrow> None
      | Some (e', st') \<Rightarrow> parse_tokens e' st' ts)"

definition JSON_parse :: "jsstring \<Rightarrow> json option" where
  "JSON_parse text = (case tokenize text of None \<Rightarrow> None | Some ts \<Rightarrow> parse_tokens Value [] ts)"

subsection \<open>ServerMessage\<close>

text \<open>
  The tagged union in the words of the specification: an object whose \<^verbatim>\<open>type\<close> is
  \<^verbatim>\<open>"transcript"\<close> with a string \<^verbatim>\<open>text\<close>, or whose \<^verbatim>\<open>type\<close> is \<^verbatim>\<open>"error"\<close>
  with a string \<^verbatim>\<open>message\<close>. Of a repeated key \<^verbatim>\<open>JSON.parse\<close> keeps the last value.
\<close>

fun field :: "json \<Rightarrow> jsstring \<Rightarrow> json option" where
  "field (JObject members) k = map_of (rev members) k"
| "field v k = None"

fun is_string :: "json option \<Rightarrow> bool" where
  "is_string (Some (JString s)) = True"
| "is_string v = False"

definition is_ServerMessage :: "json \<Rightarrow> bool" where
  "is_ServerMessage v =
     ((field v (js ''type'') = Some (JString (js ''transcript'')) \<and> is_string (field v (js ''text''))) \<or>
      (field v (js ''type'') = Some (JString (js ''error'')) \<and> is_string (field v (js ''message''))))"

subsection \<open>createWebSocketClient\<close>

datatype readyState = CONNECTING | OPEN | CLOSING | CLOSED

datatype promise_state = Pending | Resolved | Rejected

text \<open>The argument of \<^verbatim>\<open>sendAudioChunk\<close>: a view or a buffer, with its bytes.\<close>

datatype chunk = View "8 word list" | Buffer "8 word list"

text \<open>The data of a message event: a string for a text frame.\<close>

datatype ws_data = Text jsstring | Binary "8 word list"

text \<open>
  A \<^verbatim>\<open>WebSocket\<close> object: its \<^verbatim>\<open>readyState\<close>, the promise whose \<^verbatim>\<open>resolve\<close> and
  \<^verbatim>\<open>reject\<close> its handlers close over, and the messages handed to \<^verbatim>\<open>send\<close>.
\<close>

record websocket =
  readyState :: readyState
  promise :: nat
  sent :: "8 word list list"

text \<open>
  What a client is created with and runs on: whether \<^verbatim>\<open>new WebSocket(url)\<close> returns
  for its URL (it throws a SyntaxError otherwise), whether \<^verbatim>\<open>onMessage\<close> throws on a
  message, and whether the optional \<^verbatim>\<open>onError\<close> was given.
\<close>

record environment =
  url_valid :: bool
  onMessage_throws :: "json \<Rightarrow> bool"
  ws_onError_given :: bool

text \<open>
  The state of one client. \<open>socket\<close> and \<open>openPromise\<close> are the two closure variables;
  they refer, by index, to the sockets and promises that the client has created, all of
  which stay in \<open>sockets\<close> and \<open>promises\<close>: a socket that the client has let go of is
  still an object of the platform, with its handlers attached. \<open>delivered\<close> are the calls
  of \<^verbatim>\<open>onMessage\<close>, \<open>reported\<close> counts the calls of \<^verbatim>\<open>onError\<close>, and \<open>returned\<close> are
  the promises that \<^verbatim>\<open>connect\<close> has handed to its callers.
\<close>

record client =
  socket :: "nat option"
  openPromise :: "nat option"
  sockets :: "websocket list"
  promises :: "promise_state list"
  delivered :: "json list"
  reported :: nat
  returned :: "nat list"

definition new_client :: client where
  "new_client = \<lparr>socket = None, openPromise = None, sockets = [], promises = [],
     delivered = [], reported = 0, returned = []\<rparr>"

definition ready :: "client \<Rightarrow> nat \<Rightarrow> readyState option" where
  "ready t k = (if k < length (sockets t) then Some (readyState (sockets t ! k)) else None)"

definition isOpen :: "client \<Rightarrow> bool" where
  "isOpen t = (case socket t of None \<Rightarrow> False | Some k \<Rightarrow> ready t k = Some OPEN)"

definition call_ws_onError :: "environment \<Rightarrow> client \<Rightarrow> client" where
  "call_ws_onError env t = (if ws_onError_given env then t\<lparr>reported := reported t + 1\<rparr> else t)"

text \<open>\<^verbatim>\<open>resolve\<close> and \<^verbatim>\<open>reject\<close> settle a promise once; later calls do nothing.\<close>

definition settle :: "promise_state \<Rightarrow> nat \<Rightarrow> client \<Rightarrow> client" where
  "settle outcome p t =
     (if p < length (promises t) \<and> promises t ! p = Pending
      then t\<lparr>promises := (promises t)[p := outcome]\<rparr> else t)"

definition set_readyState :: "nat \<Rightarrow> readyState \<Rightarrow> client \<Rightarrow> client" where
  "set_readyState k r t = t\<lparr>sockets := (sockets t)[k := (sockets t ! k)\<lparr>readyState := r\<rparr>]\<rparr>"

text \<open>
  \<^verbatim>\<open>connect\<close>, with the promise it returns. The executor of \<^verbatim>\<open>new Promise\<close> runs at
  once, so the socket exists and \<open>socket\<close> is set before \<open>openPromise\<close> is assigned.
\<close>

definition connect :: "environment \<Rightarrow> client \<Rightarrow> nat \<times> client" where
  "connect env t =
     (if isOpen t then (length (promises t), t\<lparr>promises := promises t @ [Resolved]\<rparr>)
      else case openPromise t of
        Some p \<Rightarrow> (p, t)
      | None \<Rightarrow>
          let p = length (promises t) in
          if url_valid env then
            (p, t\<lparr>socket := Some (length (sockets t)),
                  sockets := sockets t @ [\<lparr>readyState = CONNECTING, promise = p, sent = []\<rparr>],
                  promises := promises t @ [Pending],
                  openPromise := Some p\<rparr>)
          else
            (p, (call_ws_onError env t)\<lparr>promises := promises t @ [Rejected], openPromise := Some p\<rparr>))"

text \<open>
  The four handlers that \<^verbatim>\<open>connect\<close> attaches to the socket \<open>k\<close> it creates; they
  run only for a socket of the client, on an event of the platform (see \<open>happen\<close> below).
\<close>

definition onopen :: "nat \<Rightarrow> client \<Rightarrow> client" where
  "onopen k t = settle Resolved (promise (sockets t ! k)) t"

definition onerror :: "environment \<Rightarrow> nat \<Rightarrow> client \<Rightarrow> client" where
  "onerror env k t = settle Rejected (promise (sockets t ! k)) (call_ws_onError env t)"

definition onclose :: "client \<Rightarrow> client" where
  "onclose t = t\<lparr>socket := None, openPromise := None\<rparr>"

definition onmessage :: "environment \<Rightarrow> ws_data \<Rightarrow> client \<Rightarrow> client" where
  "onmessage env data t =
     (case data of
        Binary b \<Rightarrow> t
      | Text s \<Rightarrow>
          (case JSON_parse s of
             None \<Rightarrow> call_ws_onError env t
           | Some msg \<Rightarrow>
               let t' = t\<lparr>delivered := delivered t @ [msg]\<rparr>
               in if onMessage_throws env msg then call_ws_onError env t' else t'))"

definition sendAudioChunk :: "chunk \<Rightarrow> client \<Rightarrow> client" where
  "sendAudioChunk c t =
     (case socket t of
        None \<Rightarrow> t
      | Some k \<Rightarrow>
          if ready t k = Some OPEN then
            (case c of
               View bytes \<Rightarrow> t\<lparr>sockets := (sockets t)[k := (sockets t ! k)\<lparr>sent := sent (sockets t ! k) @ [bytes]\<rparr>]\<rparr>
             | Buffer bytes \<Rightarrow> t\<lparr>sockets := (sockets t)[k := (sockets t ! k)\<lparr>sent := sent (sockets t ! k) @ [bytes]\<rparr>]\<rparr>)
          else t)"

text \<open>
  \<^verbatim>\<open>close\<close>. The platform's \<^verbatim>\<open>socket.close()\<close> moves a connecting or open socket to
  CLOSING; its close event comes later.
\<close>

definition close :: "client \<Rightarrow> client" where
  "close t =
     (case socket t of
        None \<Rightarrow> t
      | Some k \<Rightarrow>
          (if ready t k = Some CONNECTING \<or> ready t k = Some OPEN then set_readyState k CLOSING t else t)
            \<lparr>socket := None, openPromise := None\<rparr>)"

text \<open>
  What happens to a client: calls of its three methods, and the events of the platform on
  one of its sockets. The platform opens a connecting socket and then fires \<^verbatim>\<open>open\<close>;
  it delivers a message to an open socket; when a connection is over it sets the socket
  to CLOSED and fires \<^verbatim>\<open>error\<close>, if the connection failed, and then \<^verbatim>\<open>close\<close>.
\<close>

datatype happening =
    Connect
  | Close
  | SendAudioChunk chunk
  | Opened nat
  | Message nat ws_data
  | Closed nat bool

fun happen :: "environment \<Rightarrow> happening \<Rightarrow> client \<Rightarrow> client" where
  "happen env Connect t = (let (p, t') = connect env t in t'\<lparr>returned := returned t' @ [p]\<rparr>)"
| "happen env Close t = close t"
| "happen env (SendAudioChunk c) t = sendAudioChunk c t"
| "happen env (Opened k) t =
     (if ready t k = Some CONNECTING then onopen k (set_readyState k OPEN t) else t)"
| "happen env (Message k data) t =
     (if ready t k = Some OPEN then onmessage env data t else t)"
| "happen env (Closed k failed) t =
     (if ready t k = None \<or> ready t k = Some CLOSED then t
      else onclose ((if failed then onerror env k else id) (set_readyState k CLOSED t)))"

definition history :: "environment \<Rightarrow> happening list \<Rightarrow> client" where
  "history env hs = fold (happen env) hs new_client"

text \<open>The sockets of a client that are connecting or open.\<close>

definition live :: "client \<Rightarrow> nat list" where
  "live t = filter (\<lambda>k. ready t k = Some CONNECTING \<or> ready t k = Some OPEN) [0..<length (sockets t)]"

text \<open>An environment for concrete runs: a valid URL, callbacks that do not throw.\<close>

definition plain_environment :: environment where
  "plain_environment = \<lparr>url_valid = True, onMessage_throws = (\<lambda>msg. False), ws_onError_given = True\<rparr>"

section \<open>Verified properties of the audio pipeline\<close>

subsection \<open>Resampling\<close>

lemma floor_rat_numeral [simp]: "\<lfloor>numeral a / numeral b :: rat\<rfloor> = numeral a div numeral b"
  using floor_divide_of_int_eq[of "numeral a" "numeral b", where ?'a = rat] by simp

lemma floor_rat_minus_numeral [simp]:
  "\<lfloor>- (numeral a / numeral b) :: rat\<rfloor> = - numeral a div numeral b"
  using floor_divide_of_int_eq[of "- numeral a" "numeral b", where ?'a = rat] by simp

text \<open>Rounding: the exponent, the error of a rounding, and the integers that are doubles.\<close>

lemma expo_bounds: "0 < x \<Longrightarrow> 2 powi expo x \<le> x \<and> x < 2 powi (expo x + 1)"
proof (induction x rule: expo.induct)
  case (1 x)
  show ?case
  proof (cases "2 \<le> x")
    case True
    then have e: "expo x = expo (x / 2) + 1" using 1(3) by (subst expo.simps) simp
    have "2 powi expo (x / 2) \<le> x / 2 \<and> x / 2 < 2 powi (expo (x / 2) + 1)"
      using 1(1) 1(3) True by simp
    then show ?thesis unfolding e by (simp add: power_int_add)
  next
    case False
    show ?thesis
    proof (cases "x < 1")
      case True
      then have e: "expo x = expo (x * 2) - 1" using 1(3) False by (subst expo.simps) simp
      have "2 powi expo (x * 2) \<le> x * 2 \<and> x * 2 < 2 powi (expo (x * 2) + 1)"
        using 1(2) 1(3) True False by simp
      then show ?thesis unfolding e by (simp add: power_int_diff power_int_add)
    next
      case nl: False
      then have "expo x = 0" using 1(3) False by (subst expo.simps) simp
      then show ?thesis using False nl by simp
    qed
  qed
qed


lemma round_half_even_of_int [simp]: "round_half_even (of_int k) = k"
  by (simp add: round_half_even_def)


lemma expo_ge: assumes "0 < x" "2 powi e \<le> x" shows "e \<le> expo x"
proof (rule ccontr)
  assume "\<not> e \<le> expo x"
  then have "expo x + 1 \<le> e" by simp
  then have "(2::rat) powi (expo x + 1) \<le> 2 powi e" by (intro power_int_increasing) simp_all
  with expo_bounds[OF assms(1)] assms(2) show False by simp
qed

lemma expo_less: assumes "0 < x" "x < 2 powi e" shows "expo x < e"
proof (rule ccontr)
  assume "\<not> expo x < e"
  then have "(2::rat) powi e \<le> 2 powi expo x" by (intro power_int_increasing) simp_all
  with expo_bounds[OF assms(1)] assms(2) show False by simp
qed


lemma round_half_even_0 [simp]: "round_half_even 0 = 0"
  using round_half_even_of_int[of 0] by simp

lemma round_to_0 [simp]: "round_to p emin 0 = 0"
  by (simp add: round_to_def)

lemma binary64_0 [simp]: "binary64 0 = Fin 0"
  by (simp add: binary64_def overflow_def)

lemma binary32_0 [simp]: "binary32 0 = Fin 0"
  by (simp add: binary32_def overflow_def)


text \<open>An integer below \<open>2 ^ 53\<close> is a double.\<close>

lemma binary64_of_nat:
  assumes "n < 2 ^ 53"
  shows "binary64 (of_nat n) = Fin (of_nat n)"
proof (cases "n = 0")
  case True
  then show ?thesis by simp
next
  case False
  define x :: rat where "x = of_nat n"
  have pos: "0 < x" using False by (simp add: x_def)
  have ax: "\<bar>x\<bar> = x" using pos by simp
  define e where "e = expo x"
  have "(of_nat n :: rat) < of_nat (2 ^ 53)" using assms by (simp only: of_nat_less_iff)
  then have x53: "x < 2 ^ 53" by (simp add: x_def)
  then have "x < 2 powi 53" by simp
  then have e53: "e < 53" unfolding e_def by (rule expo_less[OF pos])
  have "(2::rat) powi 0 \<le> x" using False by (simp add: x_def)
  then have e0: "0 \<le> e" unfolding e_def by (rule expo_ge[OF pos])
  then have m: "max e (- 1022) = e" by simp
  define k where "k = nat (52 - e)"
  have q: "(2::rat) powi (e - 52) = 1 / 2 ^ k"
  proof -
    have "e - 52 = - int k" using e53 by (simp add: k_def)
    then have "(2::rat) powi (e - 52) = 2 powi (- int k)" by simp
    also have "\<dots> = 1 / 2 ^ k" by (simp add: power_int_minus_divide)
    finally show ?thesis .
  qed
  have "x / (1 / 2 ^ k) = of_int (int n * 2 ^ k)" by (simp add: x_def)
  then have "round_to 52 (- 1022) x = of_int (int n * 2 ^ k) * (1 / 2 ^ k)"
    by (simp only: round_to_def Let_def ax e_def[symmetric] m q round_half_even_of_int)
  then have r: "round_to 52 (- 1022) x = x" by (simp add: x_def)
  have "x < 2 ^ 1024"
  proof -
    note x53
    also have "(2::rat) ^ 53 \<le> 2 ^ 1024" by (intro power_increasing) simp_all
    finally show ?thesis .
  qed
  then show ?thesis using pos by (simp add: binary64_def r overflow_def x_def[symmetric] not_le) 
qed

lemma binary64_1 [simp]: "binary64 1 = Fin 1"
  using binary64_of_nat[of 1] by simp






lemmas b64_eval = binary64_def round_to_def overflow_def round_half_even_def expo.simps Let_def



lemma resample_at_in_range:
  assumes idx: "dmul (Fin (of_nat i)) ratio = Fin idx" and lo: "0 \<le> idx" and hi: "idx < of_nat (length xs)"
  shows "nat \<lfloor>idx\<rfloor> < length xs"
    and "min (nat \<lfloor>idx\<rfloor> + 1) (length xs - 1) < length xs"
    and "resample_at xs ratio i =
           Float32_store
             (dadd (dmul (xs ! nat \<lfloor>idx\<rfloor>) (dsub (Fin 1) (dsub (Fin idx) (Fin (of_int \<lfloor>idx\<rfloor>)))))
                   (dmul (xs ! min (nat \<lfloor>idx\<rfloor> + 1) (length xs - 1))
                         (dsub (Fin idx) (Fin (of_int \<lfloor>idx\<rfloor>)))))"
proof -
  have f0: "0 \<le> \<lfloor>idx\<rfloor>" using lo by simp
  have "idx < of_int (int (length xs))" using hi by simp
  then have f1: "\<lfloor>idx\<rfloor> < int (length xs)" by (simp only: floor_less_iff)
  show l: "nat \<lfloor>idx\<rfloor> < length xs" using f0 f1 by linarith
  then show h: "min (nat \<lfloor>idx\<rfloor> + 1) (length xs - 1) < length xs" by linarith
  have m: "min (\<lfloor>idx\<rfloor> + 1) (int (length xs) - 1) = int (min (nat \<lfloor>idx\<rfloor> + 1) (length xs - 1))"
    using f0 f1 by linarith
  have a: "js_index xs \<lfloor>idx\<rfloor> = xs ! nat \<lfloor>idx\<rfloor>" using f0 f1 by (simp add: js_index_def)
  have b: "js_index xs (min (\<lfloor>idx\<rfloor> + 1) (int (length xs) - 1)) = xs ! min (nat \<lfloor>idx\<rfloor> + 1) (length xs - 1)"
    unfolding m js_index_def using h by simp
  show "resample_at xs ratio i =
           Float32_store
             (dadd (dmul (xs ! nat \<lfloor>idx\<rfloor>) (dsub (Fin 1) (dsub (Fin idx) (Fin (of_int \<lfloor>idx\<rfloor>)))))
                   (dmul (xs ! min (nat \<lfloor>idx\<rfloor> + 1) (length xs - 1))
                         (dsub (Fin idx) (Fin (of_int \<lfloor>idx\<rfloor>)))))"
    unfolding resample_at_def idx by (simp only: sample.case Let_def a b)
qed



















text \<open>
  Claim C9. When the native rate equals the target rate, \<^verbatim>\<open>resampleLinear\<close> returns
  its input block itself, unchanged, for every block and every rate.
\<close>

theorem resampleLinear_identity: "resampleLinear xs rate rate = Inr xs"
  by (simp add: resampleLinear_def)

subsection \<open>Quantization\<close>

lemma truncate_neg_bounds:
  assumes "- 1 \<le> s" "s < 0"
  shows "- 32768 \<le> js_truncate (s * 32768)" "js_truncate (s * 32768) \<le> 0"
proof -
  have "- (s * 32768) \<le> 32768" using assms by simp
  then have "\<lfloor>- (s * 32768)\<rfloor> \<le> 32768" by (simp add: floor_le_iff)
  then show "- 32768 \<le> js_truncate (s * 32768)" using assms by (simp add: js_truncate_def)
  have "0 \<le> - (s * 32768)" using assms by simp
  then have "0 \<le> \<lfloor>- (s * 32768)\<rfloor>" by simp
  then show "js_truncate (s * 32768) \<le> 0" using assms by (simp add: js_truncate_def)
qed

lemma truncate_pos_bounds:
  assumes "0 \<le> s" "s \<le> 1"
  shows "0 \<le> js_truncate (s * 32767)" "js_truncate (s * 32767) \<le> 32767"
proof -
  show "0 \<le> js_truncate (s * 32767)" using assms by (simp add: js_truncate_def)
  have "s * 32767 \<le> 32767" using assms by simp
  then have "\<lfloor>s * 32767\<rfloor> \<le> 32767" by (simp add: floor_le_iff)
  then show "js_truncate (s * 32767) \<le> 32767" using assms by (simp add: js_truncate_def)
qed

lemma sint_word16: "- 32768 \<le> k \<Longrightarrow> k \<le> 32767 \<Longrightarrow> sint (word_of_int k :: 16 word) = k"
  by (simp add: sint_sbintrunc' signed_take_bit_int_eq_self)

lemma clamp_Fin: "clamp (Fin a) = Fin (clamp_spec a)"
  by (simp add: clamp_def clamp_spec_def)

lemma quantize_Fin: "sint (quantize (Fin a)) = quantize_spec a"
proof (cases "clamp_spec a < 0")
  case True
  have c: "- 1 \<le> clamp_spec a" by (simp add: clamp_spec_def)
  have "quantize (Fin a) = word_of_int (js_truncate (clamp_spec a * 32768))"
    using True by (simp add: quantize_def scale_def clamp_Fin)
  then show ?thesis
    using True truncate_neg_bounds[OF c True]
    by (simp add: quantize_spec_def Let_def sint_word16)
next
  case False
  have c: "clamp_spec a \<le> 1" by (simp add: clamp_spec_def)
  have "quantize (Fin a) = word_of_int (js_truncate (clamp_spec a * 32767))"
    using False by (simp add: quantize_def scale_def clamp_Fin)
  then show ?thesis
    using False truncate_pos_bounds[of "clamp_spec a"] c
    by (simp add: quantize_spec_def Let_def sint_word16)
qed

lemma quantize_spec_range: "- 32768 \<le> quantize_spec a \<and> quantize_spec a \<le> 32767"
proof (cases "clamp_spec a < 0")
  case True
  have c: "- 1 \<le> clamp_spec a" by (simp add: clamp_spec_def)
  show ?thesis using True truncate_neg_bounds[OF c True] by (simp add: quantize_spec_def Let_def)
next
  case False
  have c: "clamp_spec a \<le> 1" by (simp add: clamp_spec_def)
  show ?thesis using False truncate_pos_bounds[of "clamp_spec a"] c
    by (simp add: quantize_spec_def Let_def)
qed

lemma quantize_nonfinite: "quantize PInf = 32767" "sint (quantize NInf) = - 32768" "quantize NaN = 0"
  by (simp_all add: quantize_def clamp_def scale_def js_truncate_def)

lemma quantize_spec_values: "quantize_spec 1 = 32767" "quantize_spec (- 1) = - 32768" "quantize_spec 0 = 0"
  by (simp_all add: quantize_spec_def clamp_spec_def js_truncate_def)

text \<open>
  Claim C4. \<^verbatim>\<open>floatTo16BitPCM\<close> quantizes element by element. A finite sample is clamped
  to \<open>[-1, 1]\<close> and scaled by 32768 when negative and by 32767 otherwise, and the stored
  16-bit value is that product truncated, with no wrap-around (\<open>quantize_spec\<close>);
  \<open>+\<infinity>\<close> and \<open>-\<infinity>\<close> are clamped to 1 and -1, and NaN, which no clamp changes, is stored
  as 0. So 1 gives 32767, -1 gives -32768, 0 gives 0, and every output lies in
  \<open>[-32768, 32767]\<close>.
\<close>

theorem floatTo16BitPCM_quantization:
  "map sint (floatTo16BitPCM (map Fin as)) = map quantize_spec as \<and>
   - 1 \<le> clamp_spec a \<and> clamp_spec a \<le> 1 \<and>
   floatTo16BitPCM [Fin 1, Fin (- 1), Fin 0] = [32767, - 32768, 0] \<and>
   floatTo16BitPCM [PInf, NInf, NaN] = [32767, - 32768, 0] \<and>
   length (floatTo16BitPCM xs) = length xs \<and>
   floatTo16BitPCM (xs @ x # zs) ! length xs = quantize x \<and>
   - 32768 \<le> sint (quantize x) \<and> sint (quantize x) \<le> 32767"
proof -
  have 1: "map sint (floatTo16BitPCM (map Fin as)) = map quantize_spec as"
    by (simp add: floatTo16BitPCM_def quantize_Fin)
  have 2: "- 1 \<le> clamp_spec a \<and> clamp_spec a \<le> 1"
    by (simp add: clamp_spec_def)
  have 3: "floatTo16BitPCM [Fin 1, Fin (- 1), Fin 0] = [32767, - 32768, 0]"
    by (simp add: floatTo16BitPCM_def quantize_def clamp_def scale_def js_truncate_def)
  have 4: "floatTo16BitPCM [PInf, NInf, NaN] = [32767, - 32768, 0]"
    by (simp add: floatTo16BitPCM_def quantize_def clamp_def scale_def js_truncate_def)
  have 5: "length (floatTo16BitPCM xs) = length xs"
    by (simp add: floatTo16BitPCM_def)
  have 6: "floatTo16BitPCM (xs @ x # zs) ! length xs = quantize x"
    by (simp add: floatTo16BitPCM_def nth_append)
  have 7: "- 32768 \<le> sint (quantize x) \<and> sint (quantize x) \<le> 32767"
  proof (cases x)
    case (Fin a)
    then show ?thesis using quantize_spec_range[of a] by (simp add: quantize_Fin)
  qed (simp_all add: quantize_nonfinite)
  from 1 2 3 4 5 6 7 show ?thesis by blast
qed

subsection \<open>Framing\<close>

lemma samplesPerFrame_eq: "samplesPerFrame = 4000"
  by (simp add: samplesPerFrame_def Math_round_def TARGET_SAMPLE_RATE_def FRAME_DURATION_MS_def)

lemma length_buffer_bytes: "length (buffer_bytes pcm) = 2 * length pcm"
  by (induction pcm) (simp_all add: buffer_bytes_def)

lemma length_floatTo16BitPCM: "length (floatTo16BitPCM xs) = length xs"
  by (simp add: floatTo16BitPCM_def)

lemma payloads_append: "payloads (xs @ ys) = payloads xs @ payloads ys"
  by (induction xs rule: payloads.induct) simp_all

lemma payloads_call_onError: "payloads (events (call_onError cb s)) = payloads (events s)"
  by (simp add: call_onError_def payloads_append)

lemma payloads_call_onChunk: "payloads (events (call_onChunk cb p s)) = payloads (events s) @ [p]"
  by (simp add: call_onChunk_def Let_def payloads_append payloads_call_onError)

lemma resampleBuffer_call_onChunk: "resampleBuffer (call_onChunk cb p s) = resampleBuffer s"
  by (simp add: call_onChunk_def call_onError_def Let_def)

lemma onaudioprocess_pass:
  assumes "running s" "audioContext s = Some rate"
    and "resampleLinear input rate TARGET_SAMPLE_RATE = Inr resampled"
  shows "resampleBuffer (onaudioprocess cb input now s) =
           (if of_nat FRAME_DURATION_MS \<le> now - lastEmitTime s
            then drop (length (resampleBuffer s @ resampled) div samplesPerFrame * samplesPerFrame)
                      (resampleBuffer s @ resampled)
            else resampleBuffer s @ resampled)"
    and "payloads (events (onaudioprocess cb input now s)) =
           payloads (events s) @
           (if of_nat FRAME_DURATION_MS \<le> now - lastEmitTime s \<and>
               0 < length (resampleBuffer s @ resampled) div samplesPerFrame
            then [buffer_bytes (floatTo16BitPCM
                    (take (length (resampleBuffer s @ resampled) div samplesPerFrame * samplesPerFrame)
                          (resampleBuffer s @ resampled)))]
            else [])"
  using assms
  by (simp_all add: onaudioprocess_def Let_def payloads_call_onChunk resampleBuffer_call_onChunk)

lemma onaudioprocess_idle:
  assumes "\<not> running s \<or> audioContext s = None \<or>
           (\<exists>rate e. audioContext s = Some rate \<and> resampleLinear input rate TARGET_SAMPLE_RATE = Inl e)"
  shows "payloads (events (onaudioprocess cb input now s)) = payloads (events s)"
    and "resampleBuffer (onaudioprocess cb input now s) = resampleBuffer s"
  using assms by (auto simp: onaudioprocess_def payloads_append split: option.splits sum.splits)


lemma resample_silence:
  "resampleLinear (replicate 4096 (Fin 0)) 48000 16000 = Inr (replicate 1365 (Fin 0))"
proof -
  have r: "ddiv (Fin (of_nat 48000)) (Fin (of_nat 16000)) = Fin 3"
    using binary64_of_nat[of 3] by simp
  have q: "Math_floor (ddiv (Fin (of_nat (length (replicate 4096 (Fin 0))))) (Fin 3)) = Fin 1365"
    by (simp add: b64_eval)
  have "resample_at (replicate 4096 (Fin 0)) (Fin 3) i = Fin 0" if "i < 1365" for i
  proof -
    have "i * 3 < 2 ^ 53" using that by simp
    from binary64_of_nat[OF this]
    have idx: "dmul (Fin (of_nat i)) (Fin 3) = Fin (of_nat (i * 3))" by simp
    have lo: "(0::rat) \<le> of_nat (i * 3)" by simp
    have "i * 3 < length (replicate 4096 (Fin 0))" using that by simp
    then have hi: "(of_nat (i * 3) :: rat) < of_nat (length (replicate 4096 (Fin 0)))"
      by (simp only: of_nat_less_iff)
    note f = resample_at_in_range[OF idx lo hi]
    show ?thesis
      unfolding f(3) using f(1,2) by (simp add: dsub_def)
  qed
  then have "map (resample_at (replicate 4096 (Fin 0)) (Fin 3)) [0..<1365] = replicate 1365 (Fin 0)"
    by (intro nth_equalityI) simp_all
  then show ?thesis
    unfolding resampleLinear_def Let_def r q by simp
qed

lemma pcm_silence: "buffer_bytes (floatTo16BitPCM (replicate n (Fin 0))) = replicate (2 * n) 0"
  by (induction n) (simp_all add: buffer_bytes_def floatTo16BitPCM_def quantize_def clamp_def scale_def js_truncate_def)

lemma silence_step:
  "onaudioprocess quiet_callbacks silence now
     \<lparr>mediaStream = m, audioContext = Some 48000, processor = p, sourceNode = sn, running = True,
      resampleBuffer = replicate n (Fin 0), lastEmitTime = t, events = evs\<rparr> =
   (if 250 \<le> now - t \<and> 4000 \<le> n + 1365
    then \<lparr>mediaStream = m, audioContext = Some 48000, processor = p, sourceNode = sn, running = True,
      resampleBuffer = replicate ((n + 1365) mod 4000) (Fin 0), lastEmitTime = now,
      events = evs @ [OnChunk (replicate (2 * ((n + 1365) div 4000 * 4000)) 0)]\<rparr>
    else \<lparr>mediaStream = m, audioContext = Some 48000, processor = p, sourceNode = sn, running = True,
      resampleBuffer = replicate (n + 1365) (Fin 0), lastEmitTime = t, events = evs\<rparr>)"
proof -
  have a: "replicate n (Fin 0) @ replicate 1365 (Fin 0) = replicate (n + 1365) (Fin (0::rat))"
    by (simp add: replicate_add)
  have m: "n + 1365 - (n + 1365) div 4000 * 4000 = (n + 1365) mod 4000"
    by (simp add: minus_div_mult_eq_mod)
  have l: "min (n + 1365) ((n + 1365) div 4000 * 4000) = (n + 1365) div 4000 * 4000"
    by simp
  have d: "0 < (n + 1365) div 4000 \<longleftrightarrow> 4000 \<le> n + 1365"
    by (simp add: div_greater_zero_iff)
  show ?thesis
    unfolding onaudioprocess_def silence_def
    by (simp add: resample_silence TARGET_SAMPLE_RATE_def FRAME_DURATION_MS_def samplesPerFrame_eq
        Let_def a m l d pcm_silence call_onChunk_def quiet_callbacks_def del: replicate_append_same)
qed

lemma silence_first:
  "onaudioprocess quiet_callbacks silence now
     \<lparr>mediaStream = m, audioContext = Some 48000, processor = p, sourceNode = sn, running = True,
      resampleBuffer = [], lastEmitTime = t, events = evs\<rparr> =
   \<lparr>mediaStream = m, audioContext = Some 48000, processor = p, sourceNode = sn, running = True,
      resampleBuffer = replicate 1365 (Fin 0), lastEmitTime = t, events = evs\<rparr>"
  using silence_step[of now m p sn 0 t evs] by simp


lemma started_48000:
  "start quiet_callbacks (Succeeds 48000) 0 new_framer =
     \<lparr>mediaStream = Some (), audioContext = Some 48000, processor = Some (), sourceNode = Some (),
      running = True, resampleBuffer = [], lastEmitTime = 0, events = []\<rparr>"
  by (simp add: start_def start_begin_def start_resume_def new_framer_def)






lemma payloads_stop: "payloads (events (stop s)) = payloads (events s)"
  by (simp add: stop_def)

lemma events_acquired: "events (acquired out s) = events s"
  by (cases out) simp_all

lemma payloads_start_resume: "payloads (events (start_resume cb out now s)) = payloads (events s)"
  by (simp add: start_resume_def payloads_stop payloads_call_onError events_acquired)

lemma payloads_start: "payloads (events (start cb out now s)) = payloads (events s)"
  by (simp add: start_def payloads_start_resume)

lemma whole_frames_onaudioprocess:
  assumes "whole_frames s"
  shows "whole_frames (onaudioprocess cb input now s)"
proof (cases "running s \<and> (\<exists>rate resampled. audioContext s = Some rate \<and>
          resampleLinear input rate TARGET_SAMPLE_RATE = Inr resampled)")
  case True
  then obtain rate resampled where h: "running s" "audioContext s = Some rate"
      "resampleLinear input rate TARGET_SAMPLE_RATE = Inr resampled"
    by blast
  define k where "k = length (resampleBuffer s @ resampled) div samplesPerFrame"
  have "k * samplesPerFrame \<le> length (resampleBuffer s @ resampled)"
    by (simp add: k_def)
  then have "length (buffer_bytes (floatTo16BitPCM (take (k * samplesPerFrame) (resampleBuffer s @ resampled))))
      = k * (samplesPerFrame * 2)"
    by (simp add: length_buffer_bytes length_floatTo16BitPCM min_absorb2)
  then show ?thesis
    using assms onaudioprocess_pass(2)[OF h, of cb now]
    unfolding whole_frames_def k_def by auto
next
  case False
  then have "\<not> running s \<or> audioContext s = None \<or>
      (\<exists>rate e. audioContext s = Some rate \<and> resampleLinear input rate TARGET_SAMPLE_RATE = Inl e)"
    by (cases "audioContext s"; cases "resampleLinear input (the (audioContext s)) TARGET_SAMPLE_RATE")
       auto
  then show ?thesis
    using assms onaudioprocess_idle(1)[of s input cb now] by (simp add: whole_frames_def)
qed

lemma whole_frames_perform: "whole_frames s \<Longrightarrow> whole_frames (perform cb a s)"
proof (cases a)
  case (AudioProcess input now)
  assume "whole_frames s"
  then show ?thesis using AudioProcess by (simp add: whole_frames_onaudioprocess)
qed (simp_all add: whole_frames_def payloads_start payloads_start_resume payloads_stop)

lemma whole_frames_fold: "whole_frames s \<Longrightarrow> whole_frames (fold (perform cb) acts s)"
  by (induction acts arbitrary: s) (simp_all add: whole_frames_perform)

text \<open>
  Claim C10. Whatever is done to a stream (starts, stops, capture callbacks with any input
  and any clock), every payload handed to \<^verbatim>\<open>onChunk\<close> is a positive whole number of
  frames: its byte length is \<open>k * (samplesPerFrame * 2)\<close> for some \<open>k > 0\<close>, and
  \<open>samplesPerFrame * 2\<close> is 8000.
\<close>

theorem payload_whole_number_of_frames:
  "(\<forall>p \<in> set (payloads (events (session cb acts))).
      \<exists>k. 0 < k \<and> length p = k * (samplesPerFrame * 2)) \<and>
   samplesPerFrame * 2 = 8000"
proof -
  have "whole_frames new_framer" by (simp add: whole_frames_def new_framer_def)
  then have "whole_frames (session cb acts)"
    unfolding session_def by (rule whole_frames_fold)
  then show ?thesis by (simp add: whole_frames_def samplesPerFrame_eq)
qed

theorem payload_whole_number_of_frames_witness:
  "payloads (events (session quiet_callbacks
      [Start (Succeeds 48000) 0, AudioProcess silence 85, AudioProcess silence 171,
       AudioProcess silence 256])) = [replicate 8000 0] \<and>
   (\<exists>k. 0 < k \<and> length (replicate 8000 (0 :: 8 word)) = k * (samplesPerFrame * 2))"
proof -
  have e: "payloads (events (session quiet_callbacks
      [Start (Succeeds 48000) 0, AudioProcess silence 85, AudioProcess silence 171,
       AudioProcess silence 256])) = [replicate 8000 0]"
    by (simp add: session_def started_48000 silence_step silence_first)
  then have "replicate 8000 0 \<in> set (payloads (events (session quiet_callbacks
      [Start (Succeeds 48000) 0, AudioProcess silence 85, AudioProcess silence 171,
       AudioProcess silence 256])))"
    by simp
  with payload_whole_number_of_frames[of quiet_callbacks
      "[Start (Succeeds 48000) 0, AudioProcess silence 85, AudioProcess silence 171,
        AudioProcess silence 256]"]
  have "\<exists>k. 0 < k \<and> length (replicate 8000 (0 :: 8 word)) = k * (samplesPerFrame * 2)"
    by blast
  with e show ?thesis by blast
qed

text \<open>
  Claim C8, as stated, fails. \<^verbatim>\<open>start()\<close> is called on a fresh stream and suspends at
  its \<^verbatim>\<open>await\<close>; \<^verbatim>\<open>stop()\<close> runs and finds nothing to release; the microphone is
  granted and \<^verbatim>\<open>start\<close> resumes. Both calls are over and the session is recording.
\<close>

theorem stop_during_start_counterexample:
  "start_begin new_framer \<and>
   running (start_and_stop quiet_callbacks During_await (Succeeds 48000) 0 new_framer) \<and>
   mediaStream (start_and_stop quiet_callbacks During_await (Succeeds 48000) 0 new_framer) = Some ()"
  by (simp add: start_begin_def start_resume_def stop_def new_framer_def)

lemma stopped_stop: "stopped (stop s)"
  by (simp add: stopped_def stop_def)

lemma running_acquired: "running (acquired out s) = running s"
  by (cases out) simp_all

lemma started_start_resume:
  "succeeds out \<Longrightarrow> running (start_resume cb out now s) \<and>
     mediaStream (start_resume cb out now s) = Some () \<and>
     processor (start_resume cb out now s) = Some () \<and>
     sourceNode (start_resume cb out now s) = Some () \<and>
     audioContext (start_resume cb out now s) \<noteq> None"
  by (cases out) (simp_all add: start_resume_def)

text \<open>
  Claim C8, amended. \<^verbatim>\<open>stop()\<close> wins when it runs after \<^verbatim>\<open>start()\<close> has finished,
  and when the \<^verbatim>\<open>start()\<close> it interrupts fails: the session is then stopped, with
  every handle released. A \<^verbatim>\<open>stop()\<close> that runs while \<^verbatim>\<open>start()\<close> is suspended at
  its \<^verbatim>\<open>await\<close> does not cancel it: when the acquisition succeeds the session ends up
  recording, with all its capture resources held.
\<close>

theorem stop_wins_unless_start_resumes:
  "stopped (start_and_stop cb After_start out now s) \<and>
   stopped (start_and_stop cb During_await out now s) =
     (\<not> (start_begin s \<and> succeeds out)) \<and>
   running (start_and_stop cb During_await out now s) = (start_begin s \<and> succeeds out)"
proof -
  have 1: "stopped (start_and_stop cb After_start out now s)"
    by (simp add: stopped_stop)
  have 2: "running (start_and_stop cb During_await out now s) = (start_begin s \<and> succeeds out)"
    using started_start_resume[of out cb now "stop s"]
    by (auto simp: start_resume_def stop_def)
  have 3: "stopped (start_and_stop cb During_await out now s) = (\<not> (start_begin s \<and> succeeds out))"
  proof (cases "start_begin s \<and> succeeds out")
    case True
    then show ?thesis using 2 by (simp add: stopped_def)
  next
    case False
    then show ?thesis by (auto simp: start_resume_def stopped_stop)
  qed
  from 1 2 3 show ?thesis by blast
qed

section \<open>Verified properties of the WebSocket client\<close>

subsection \<open>Sending\<close>

text \<open>
  Claim C7. While the connection is not open (no socket, or a socket that is connecting,
  closing or closed), \<^verbatim>\<open>sendAudioChunk\<close> drops its argument: nothing is sent, no error
  is reported, and the whole state of the client is as before.
\<close>

theorem sendAudioChunk_dropped: "\<not> isOpen t \<Longrightarrow> sendAudioChunk c t = t"
  by (auto simp: isOpen_def sendAudioChunk_def split: option.splits)

lemma connecting_client:
  "history plain_environment [Connect] =
     \<lparr>socket = Some 0, openPromise = Some 0,
      sockets = [\<lparr>readyState = CONNECTING, promise = 0, sent = []\<rparr>],
      promises = [Pending], delivered = [], reported = 0, returned = [0]\<rparr>"
  by (simp add: history_def new_client_def connect_def isOpen_def plain_environment_def)

theorem sendAudioChunk_dropped_witness:
  "\<not> isOpen new_client \<and>
   sendAudioChunk (Buffer [1, 2]) new_client = new_client \<and>
   \<not> isOpen (history plain_environment [Connect]) \<and>
   sendAudioChunk (View [1, 2]) (history plain_environment [Connect]) =
     history plain_environment [Connect]"
proof -
  have h1: "\<not> isOpen new_client"
    by (simp add: isOpen_def new_client_def)
  have h2: "\<not> isOpen (history plain_environment [Connect])"
    by (simp add: connecting_client isOpen_def ready_def)
  show ?thesis
    using h1 h2 sendAudioChunk_dropped[OF h1, of "Buffer [1, 2]"]
      sendAudioChunk_dropped[OF h2, of "View [1, 2]"]
    by simp
qed

subsection \<open>Inbound messages\<close>

lemma open_client:
  "history plain_environment [Connect, Opened 0] =
     \<lparr>socket = Some 0, openPromise = Some 0,
      sockets = [\<lparr>readyState = OPEN, promise = 0, sent = []\<rparr>],
      promises = [Resolved], delivered = [], reported = 0, returned = [0]\<rparr>"
  by (simp add: history_def new_client_def connect_def isOpen_def plain_environment_def
      ready_def set_readyState_def onopen_def settle_def)

lemma history_snoc: "history env (hs @ [h]) = happen env h (history env hs)"
  by (simp add: history_def)

lemma parse_ping:
  \<open>JSON_parse (js ''{"type":"ping"}'') = Some (JObject [(js ''type'', JString (js ''ping''))])\<close>
  by (simp add: JSON_parse_def js_def is_ws_def punctuation_def cons_token_def cons_fst_def
      begin_value_def)

lemma parse_not_json: "JSON_parse (js ''not json'') = None"
  by (simp add: JSON_parse_def js_def is_ws_def punctuation_def cons_token_def cons_fst_def
      begin_value_def lex_number_def lex_int_def is_digit_def)

text \<open>
  Claim C3, as stated, fails. The text frame \<^verbatim>\<open>{"type":"ping"}\<close> is valid JSON and not a
  ServerMessage; the open client hands it to the message callback all the same.
\<close>

theorem onmessage_unchecked_counterexample:
  \<open>isOpen (history plain_environment [Connect, Opened 0]) \<and>
   delivered (history plain_environment
     [Connect, Opened 0, Message 0 (Text (js ''{"type":"ping"}''))]) =
     [JObject [(js ''type'', JString (js ''ping''))]] \<and>
   is_ServerMessage (JObject [(js ''type'', JString (js ''ping''))]) = False\<close>
proof -
  have 1: "isOpen (history plain_environment [Connect, Opened 0])"
    by (simp add: open_client isOpen_def ready_def)
  have 2: \<open>delivered (history plain_environment
     ([Connect, Opened 0] @ [Message 0 (Text (js ''{"type":"ping"}''))])) =
     [JObject [(js ''type'', JString (js ''ping''))]]\<close>
    unfolding history_snoc open_client
    by (simp add: ready_def onmessage_def parse_ping plain_environment_def)
  have 3: "is_ServerMessage (JObject [(js ''type'', JString (js ''ping''))]) = False"
    by (simp add: is_ServerMessage_def js_def)
  from 1 2 3 show ?thesis by simp
qed

text \<open>
  Claim C3, amended. A text frame is handed to the message callback exactly when
  \<^verbatim>\<open>JSON.parse\<close> accepts it, whatever value it parses to. The error callback, when one
  was given, is called once for a frame that \<^verbatim>\<open>JSON.parse\<close> rejects or on which the
  message callback throws, and not otherwise. A binary frame changes nothing. No frame
  changes the socket, the pending promise or whether the connection is open.
\<close>

theorem onmessage_delivers_parsed:
  "delivered (onmessage env (Text s) t) =
     delivered t @ (case JSON_parse s of None \<Rightarrow> [] | Some msg \<Rightarrow> [msg]) \<and>
   reported (onmessage env (Text s) t) =
     reported t +
     (if ws_onError_given env \<and> (case JSON_parse s of None \<Rightarrow> True | Some msg \<Rightarrow> onMessage_throws env msg)
      then 1 else 0) \<and>
   onmessage env (Binary b) t = t \<and>
   socket (onmessage env d t) = socket t \<and>
   openPromise (onmessage env d t) = openPromise t \<and>
   sockets (onmessage env d t) = sockets t \<and>
   promises (onmessage env d t) = promises t \<and>
   isOpen (onmessage env d t) = isOpen t"
proof -
  have 1: "delivered (onmessage env (Text s) t) =
     delivered t @ (case JSON_parse s of None \<Rightarrow> [] | Some msg \<Rightarrow> [msg])"
    by (simp add: onmessage_def call_ws_onError_def Let_def split: option.splits)
  have 2: "reported (onmessage env (Text s) t) =
     reported t +
     (if ws_onError_given env \<and> (case JSON_parse s of None \<Rightarrow> True | Some msg \<Rightarrow> onMessage_throws env msg)
      then 1 else 0)"
    by (simp add: onmessage_def call_ws_onError_def Let_def split: option.splits)
  have 3: "onmessage env (Binary b) t = t"
    by (simp add: onmessage_def)
  have 4: "socket (onmessage env d t) = socket t \<and> openPromise (onmessage env d t) = openPromise t \<and>
      sockets (onmessage env d t) = sockets t \<and> promises (onmessage env d t) = promises t"
    by (simp add: onmessage_def call_ws_onError_def Let_def split: option.splits ws_data.splits)
  then have 5: "isOpen (onmessage env d t) = isOpen t"
    by (simp add: isOpen_def ready_def split: option.splits)
  from 1 2 3 4 5 show ?thesis by simp
qed

text \<open>
  The scenario of the specification: on the text \<^verbatim>\<open>not json\<close> the message callback is
  not called, the error callback is called once, and the connection stays open.
\<close>

lemma not_json_scenario:
  "delivered (history plain_environment [Connect, Opened 0, Message 0 (Text (js ''not json''))]) = [] \<and>
   reported (history plain_environment [Connect, Opened 0, Message 0 (Text (js ''not json''))]) = 1 \<and>
   isOpen (history plain_environment [Connect, Opened 0, Message 0 (Text (js ''not json''))])"
proof -
  have "history plain_environment ([Connect, Opened 0] @ [Message 0 (Text (js ''not json''))]) =
     \<lparr>socket = Some 0, openPromise = Some 0,
      sockets = [\<lparr>readyState = OPEN, promise = 0, sent = []\<rparr>],
      promises = [Resolved], delivered = [], reported = 1, returned = [0]\<rparr>"
    unfolding history_snoc open_client
    by (simp add: ready_def onmessage_def parse_not_json call_ws_onError_def
        plain_environment_def)
  then show ?thesis by (simp add: isOpen_def ready_def)
qed

subsection \<open>Connecting\<close>

text \<open>
  What the cached promise does give: while \<open>openPromise\<close> is set and the connection is
  not open, \<^verbatim>\<open>connect\<close> returns that promise and creates nothing; while the connection
  is open, \<^verbatim>\<open>connect\<close> returns a resolved promise and creates no socket.
\<close>

lemma connect_while_pending:
  "\<not> isOpen t \<Longrightarrow> openPromise t = Some p \<Longrightarrow> connect env t = (p, t)"
  by (simp add: connect_def)

lemma connect_while_open:
  "isOpen t \<Longrightarrow> sockets (snd (connect env t)) = sockets t \<and>
     socket (snd (connect env t)) = socket t \<and>
     promises (snd (connect env t)) ! fst (connect env t) = Resolved"
  by (simp add: connect_def)

text \<open>
  Claim C6 does not hold of the code. The \<^verbatim>\<open>onclose\<close> handler of a socket clears
  \<open>socket\<close> and \<open>openPromise\<close> without looking whether they still belong to that socket.
  After \<^verbatim>\<open>connect(); close(); connect()\<close> the close event of the first socket arrives
  and wipes the reference to the second socket, whose attempt is still pending; the next
  \<^verbatim>\<open>connect()\<close> opens a third socket and returns a new promise. Two connections are live
  and the two callers hold different pending promises.
\<close>

theorem connect_after_stale_close_event:
  "returned (history plain_environment [Connect, Close, Connect, Closed 0 True, Connect]) = [0, 1, 2] \<and>
   promises (history plain_environment [Connect, Close, Connect, Closed 0 True, Connect]) =
     [Rejected, Pending, Pending] \<and>
   map readyState (sockets (history plain_environment [Connect, Close, Connect, Closed 0 True, Connect])) =
     [CLOSED, CONNECTING, CONNECTING] \<and>
   live (history plain_environment [Connect, Close, Connect, Closed 0 True, Connect]) = [1, 2]"
proof -
  have "history plain_environment [Connect, Close, Connect, Closed 0 True, Connect] =
     \<lparr>socket = Some 2, openPromise = Some 2,
      sockets = [\<lparr>readyState = CLOSED, promise = 0, sent = []\<rparr>,
                 \<lparr>readyState = CONNECTING, promise = 1, sent = []\<rparr>,
                 \<lparr>readyState = CONNECTING, promise = 2, sent = []\<rparr>],
      promises = [Rejected, Pending, Pending], delivered = [], reported = 1,
      returned = [0, 1, 2]\<rparr>"
    by (simp add: history_def new_client_def connect_def isOpen_def plain_environment_def
        ready_def set_readyState_def close_def onclose_def onerror_def settle_def
        call_ws_onError_def)
  then show ?thesis by (simp add: live_def ready_def upt_rec)
qed

end
